theory Spec2Isabelle
  imports Complex_Main "HOL-Library.AList" "HOL-Library.Word" "HOL-Library.Char_ord"
    "HOL-Library.List_Lexorder"
begin

unbundle bit_operations_syntax

section \<open>Data model of \<^verbatim>\<open>blockchain_sim.py\<close>\<close>

text \<open>
  The program keeps every value in Python dictionaries. A dictionary with a fixed set of
  keys is a record here; the UTXO set, a dictionary whose iteration order the program
  relies on (\<^verbatim>\<open>create_tx\<close>, \<^verbatim>\<open>export_data\<close>), is an association list
  in insertion order, read with \<^const>\<open>map_of\<close> and written with
  \<^const>\<open>AList.update\<close> (replace in place, or append a new key at the end) and
  \<^const>\<open>AList.delete\<close>, which is what \<^verbatim>\<open>d[k] = v\<close> and \<^verbatim>\<open>del d[k]\<close>
  do to a Python 3.7+ dictionary.

  Amounts and timestamps are Python numbers. The ledger operations only add amounts,
  starting from \<^verbatim>\<open>0\<close>, and compare two totals with \<^verbatim>\<open>>=\<close>; they are
  modelled over any type \<open>'a\<close> with \<open>0\<close>, \<open>+\<close> and \<open>\<le>\<close>, with no law assumed of
  them, so that what is proved of them holds of Python's integers and of its floats
  alike. Strings are lists of characters, an output index is a Python integer.
\<close>

type_synonym outref = "string \<times> int"

record txin =
  in_txid :: string
  in_vout :: int

record 'a txout =
  o_address :: string
  o_amount :: 'a

record 'a utxo =
  u_txid :: string
  u_vout :: int
  u_address :: string
  u_amount :: 'a

text \<open>
  A transaction as \<^verbatim>\<open>create_tx\<close> builds it. The field \<^verbatim>\<open>signature\<close> is optional:
  \<^verbatim>\<open>add_tx\<close> accepts a dictionary without it.
\<close>

record 'a tx =
  tx_inputs :: "txin list"
  tx_outputs :: "'a txout list"
  tx_timestamp :: 'a
  tx_txid :: string
  tx_signature :: "string option"

record 'a block =
  b_timestamp :: string
  b_tx :: "'a tx list"
  b_miner :: string
  b_nonce :: nat
  b_hash :: string

type_synonym 'a store = "(outref \<times> 'a utxo) list"

record 'a ledger =
  chain :: "'a block list"
  utxos :: "'a store"
  difficulty :: int
  mempool :: "'a tx list"

record wallet =
  private_key :: string
  public_key :: string
  address :: string

definition Blockchain :: "int \<Rightarrow> 'a ledger" where
  "Blockchain d = \<lparr>chain = [], utxos = [], difficulty = d, mempool = []\<rparr>"

section \<open>Transaction admission\<close>

definition ref_of :: "txin \<Rightarrow> outref" where
  "ref_of i = (in_txid i, in_vout i)"

text \<open>
  The first loop of \<^verbatim>\<open>verify_tx\<close>: \<open>None\<close> is the early \<^verbatim>\<open>return False\<close> at an
  input whose key is not in the UTXO set, \<open>Some total_in\<close> the total of the amounts found.
\<close>

fun sum_inputs :: "('a::plus) store \<Rightarrow> txin list \<Rightarrow> 'a \<Rightarrow> 'a option" where
  "sum_inputs us [] total_in = Some total_in"
| "sum_inputs us (i # ins) total_in =
     (case map_of us (ref_of i) of
        None \<Rightarrow> None
      | Some u \<Rightarrow> sum_inputs us ins (total_in + u_amount u))"

definition sum_outputs :: "('a::{zero,plus}) txout list \<Rightarrow> 'a" where
  "sum_outputs outs = foldl (\<lambda>total_out out. total_out + o_amount out) 0 outs"

definition verify_tx :: "('a::{zero,plus,ord}) ledger \<Rightarrow> 'a tx \<Rightarrow> bool" where
  "verify_tx L t =
     (case sum_inputs (utxos L) (tx_inputs t) 0 of
        None \<Rightarrow> False
      | Some total_in \<Rightarrow> total_in \<ge> sum_outputs (tx_outputs t))"

text \<open>\<^verbatim>\<open>add_tx\<close> returns the ledger after the call and the boolean the method returns.\<close>

definition add_tx :: "('a::{zero,plus,ord}) ledger \<Rightarrow> 'a tx \<Rightarrow> 'a ledger \<times> bool" where
  "add_tx L t =
     (if verify_tx L t then (L\<lparr>mempool := mempool L @ [t]\<rparr>, True) else (L, False))"


section \<open>Python strings of integers\<close>

text \<open>\<^verbatim>\<open>str(n)\<close> of a Python integer: decimal digits, no leading zero, a minus sign first.\<close>

definition digit_char :: "nat \<Rightarrow> char" where
  "digit_char n = ''0123456789abcdef'' ! n"

function str_nat :: "nat \<Rightarrow> string" where
  "str_nat n = (if n < 10 then [digit_char n] else str_nat (n div 10) @ [digit_char (n mod 10)])"
  by pat_completeness auto
termination
  by (relation "measure id") auto

declare str_nat.simps [simp del]

definition str_int :: "int \<Rightarrow> string" where
  "str_int i = (if i < 0 then CHR ''-'' # str_nat (nat (- i)) else str_nat (nat i))"

definition startswith :: "string \<Rightarrow> string \<Rightarrow> bool" where
  "startswith s p = (take (length p) s = p)"

section \<open>Genesis allocation and application of a transaction\<close>

definition genesis :: "wallet \<Rightarrow> 'a \<Rightarrow> 'a ledger \<Rightarrow> 'a ledger" where
  "genesis w amount L =
     (let txid = ''genesis'' @ str_nat (length (chain L) + 1)
      in L\<lparr>utxos := AList.update (txid, 0)
             \<lparr>u_txid = txid, u_vout = 0, u_address = address w, u_amount = amount\<rparr> (utxos L)\<rparr>)"

text \<open>The first loop of \<^verbatim>\<open>apply_tx\<close>: each input's key is deleted if it is in the set.\<close>

fun spend_inputs :: "'a store \<Rightarrow> txin list \<Rightarrow> 'a store" where
  "spend_inputs us [] = us"
| "spend_inputs us (i # ins) =
     spend_inputs (if map_of us (ref_of i) \<noteq> None then AList.delete (ref_of i) us else us) ins"

text \<open>The second loop: output number \<open>idx\<close> is stored under the key (txid, idx).\<close>

fun insert_outputs :: "string \<Rightarrow> nat \<Rightarrow> 'a txout list \<Rightarrow> 'a store \<Rightarrow> 'a store" where
  "insert_outputs txid idx [] us = us"
| "insert_outputs txid idx (out # outs) us =
     insert_outputs txid (Suc idx) outs
       (AList.update (txid, int idx)
          \<lparr>u_txid = txid, u_vout = int idx, u_address = o_address out, u_amount = o_amount out\<rparr> us)"

definition apply_tx :: "'a ledger \<Rightarrow> 'a tx \<Rightarrow> 'a ledger" where
  "apply_tx L t =
     L\<lparr>utxos := insert_outputs (tx_txid t) 0 (tx_outputs t) (spend_inputs (utxos L) (tx_inputs t))\<rparr>"

section \<open>Canonical serialization: \<^verbatim>\<open>json.dumps(_, sort_keys=True)\<close>\<close>

text \<open>
  The JSON values the program serializes. A dictionary holds its items in insertion order;
  \<open>dumps\<close> sorts them by key, as \<^verbatim>\<open>sort_keys=True\<close> does, writes \<^verbatim>\<open>", "\<close> between
  items and \<^verbatim>\<open>": "\<close> after a key, and escapes a string as \<^verbatim>\<open>ensure_ascii=True\<close>
  does. A character is a code point below 256. How Python writes a number that is not an
  integer (\<^verbatim>\<open>float.__repr__\<close>) is the parameter \<open>repr\<close>.
\<close>

datatype 'a json =
    JInt int
  | JNum 'a
  | JStr string
  | JList "'a json list"
  | JDict "(string \<times> 'a json) list"

definition hex4 :: "nat \<Rightarrow> string" where
  "hex4 n = map (\<lambda>k. digit_char ((n div 16 ^ k) mod 16)) [3, 2, 1, 0]"

definition escape_char :: "char \<Rightarrow> string" where
  "escape_char c =
     (if c = CHR 0x22 then [CHR 0x5C, CHR 0x22]
      else if c = CHR 0x5C then [CHR 0x5C, CHR 0x5C]
      else if c = CHR 0x0A then [CHR 0x5C, CHR ''n'']
      else if c = CHR 0x0D then [CHR 0x5C, CHR ''r'']
      else if c = CHR 0x09 then [CHR 0x5C, CHR ''t'']
      else if c = CHR 0x08 then [CHR 0x5C, CHR ''b'']
      else if c = CHR 0x0C then [CHR 0x5C, CHR ''f'']
      else if (of_char c :: nat) < 32 \<or> 126 < (of_char c :: nat)
        then [CHR 0x5C, CHR ''u''] @ hex4 (of_char c)
      else [c])"

definition json_str :: "string \<Rightarrow> string" where
  "json_str s = [CHR 0x22] @ concat (map escape_char s) @ [CHR 0x22]"

fun join :: "string \<Rightarrow> string list \<Rightarrow> string" where
  "join sep [] = []"
| "join sep [x] = x"
| "join sep (x # y # ys) = x @ sep @ join sep (y # ys)"

fun dumps :: "('a \<Rightarrow> string) \<Rightarrow> 'a json \<Rightarrow> string" where
  "dumps repr (JInt i) = str_int i"
| "dumps repr (JNum x) = repr x"
| "dumps repr (JStr s) = json_str s"
| "dumps repr (JList xs) = ''['' @ join '', '' (map (dumps repr) xs) @ '']''"
| "dumps repr (JDict kvs) =
     ''{'' @ join '', '' (map (\<lambda>(k, v). json_str k @ '': '' @ dumps repr v) (sort_key fst kvs)) @ ''}''"

definition txin_json :: "txin \<Rightarrow> 'a json" where
  "txin_json i = JDict [(''txid'', JStr (in_txid i)), (''vout'', JInt (in_vout i))]"

definition txout_json :: "'a txout \<Rightarrow> 'a json" where
  "txout_json out = JDict [(''address'', JStr (o_address out)), (''amount'', JNum (o_amount out))]"

definition tx_json :: "'a tx \<Rightarrow> 'a json" where
  "tx_json t =
     JDict ([(''inputs'', JList (map txin_json (tx_inputs t))),
             (''outputs'', JList (map txout_json (tx_outputs t))),
             (''timestamp'', JNum (tx_timestamp t)),
             (''txid'', JStr (tx_txid t))]
            @ (case tx_signature t of None \<Rightarrow> [] | Some sg \<Rightarrow> [(''signature'', JStr sg)]))"

text \<open>
  The dictionary \<^verbatim>\<open>{timestamp, tx, miner, nonce}\<close> of a block, as \<^verbatim>\<open>mine_block\<close>
  builds it before the search; the key \<^verbatim>\<open>hash\<close> is added only after it.
\<close>

definition block_json :: "'a block \<Rightarrow> 'a json" where
  "block_json b =
     JDict [(''timestamp'', JStr (b_timestamp b)),
            (''tx'', JList (map tx_json (b_tx b))),
            (''miner'', JStr (b_miner b)),
            (''nonce'', JInt (int (b_nonce b)))]"

section \<open>Mining\<close>

text \<open>
  The proof-of-work loop of \<^verbatim>\<open>mine_block\<close>. \<open>H s\<close> stands for
  \<^verbatim>\<open>hashlib.sha256(s.encode()).hexdigest()\<close>. The loop has no bound in the source; it is
  a partial function here, \<open>None\<close> when it never ends.
\<close>

partial_function (option) pow_loop :: "(string \<Rightarrow> string) \<Rightarrow> int \<Rightarrow> string \<Rightarrow> nat \<Rightarrow> (nat \<times> string) option" where
  "pow_loop H d block_json_str nonce =
     (if startswith (H (block_json_str @ str_nat nonce)) (replicate (nat d) CHR ''0'')
      then Some (nonce, H (block_json_str @ str_nat nonce))
      else pow_loop H d block_json_str (nonce + 1))"

text \<open>
  \<^verbatim>\<open>mine_block\<close>: \<open>now\<close> is \<^verbatim>\<open>datetime.utcnow().isoformat()\<close>. The block has no hash
  before the search ends; \<open>b_hash\<close> of the skeleton is the empty string and is never read.
\<close>

definition mine_block ::
  "(string \<Rightarrow> string) \<Rightarrow> ('a \<Rightarrow> string) \<Rightarrow> string \<Rightarrow> wallet \<Rightarrow> 'a ledger \<Rightarrow> 'a ledger option" where
  "mine_block H repr now miner_wallet L =
     (let block = \<lparr>b_timestamp = now, b_tx = mempool L, b_miner = address miner_wallet,
                    b_nonce = 0, b_hash = []\<rparr>;
          block_json_str = dumps repr (block_json block)
      in case pow_loop H (difficulty L) block_json_str 0 of
           None \<Rightarrow> None
         | Some (nonce, hash_try) \<Rightarrow>
             Some ((foldl apply_tx L (mempool L))
                     \<lparr>mempool := [],
                      chain := chain L @ [block\<lparr>b_nonce := nonce, b_hash := hash_try\<rparr>]\<rparr>))"

definition total_value :: "('a::{zero,plus}) ledger \<Rightarrow> 'a" where
  "total_value L = foldl (\<lambda>s (k, u). s + u_amount u) 0 (utxos L)"


section \<open>SHA-256\<close>

text \<open>
  \<^verbatim>\<open>hashlib.sha256(s.encode()).hexdigest()\<close> for a string of ASCII characters, after
  FIPS 180-4: 32-bit words are natural numbers below \<open>2^32\<close>, addition is modulo
  \<open>2^32\<close>, and a rotation is written with division and remainder.
\<close>

definition add32 :: "nat \<Rightarrow> nat \<Rightarrow> nat" where
  "add32 x y = (x + y) mod 4294967296"

definition rotr :: "nat \<Rightarrow> nat \<Rightarrow> nat" where
  "rotr n x = x div 2 ^ n + (x mod 2 ^ n) * 2 ^ (32 - n)"

definition Ch :: "nat \<Rightarrow> nat \<Rightarrow> nat \<Rightarrow> nat" where
  "Ch e f g = (e AND f) XOR ((4294967295 - e) AND g)"

definition Maj :: "nat \<Rightarrow> nat \<Rightarrow> nat \<Rightarrow> nat" where
  "Maj a b c = (a AND b) XOR ((a AND c) XOR (b AND c))"

definition bsig0 :: "nat \<Rightarrow> nat" where
  "bsig0 x = rotr 2 x XOR rotr 13 x XOR rotr 22 x"

definition bsig1 :: "nat \<Rightarrow> nat" where
  "bsig1 x = rotr 6 x XOR rotr 11 x XOR rotr 25 x"

definition ssig0 :: "nat \<Rightarrow> nat" where
  "ssig0 x = rotr 7 x XOR rotr 18 x XOR x div 2 ^ 3"

definition ssig1 :: "nat \<Rightarrow> nat" where
  "ssig1 x = rotr 17 x XOR rotr 19 x XOR x div 2 ^ 10"

definition K256 :: "nat list" where
  "K256 = [1116352408, 1899447441, 3049323471, 3921009573, 961987163, 1508970993, 2453635748,
    2870763221, 3624381080, 310598401, 607225278, 1426881987, 1925078388, 2162078206,
    2614888103, 3248222580, 3835390401, 4022224774, 264347078, 604807628, 770255983,
    1249150122, 1555081692, 1996064986, 2554220882, 2821834349, 2952996808, 3210313671,
    3336571891, 3584528711, 113926993, 338241895, 666307205, 773529912, 1294757372,
    1396182291, 1695183700, 1986661051, 2177026350, 2456956037, 2730485921, 2820302411,
    3259730800, 3345764771, 3516065817, 3600352804, 4094571909, 275423344, 430227734,
    506948616, 659060556, 883997877, 958139571, 1322822218, 1537002063, 1747873779,
    1955562222, 2024104815, 2227730452, 2361852424, 2428436474, 2756734187, 3204031479,
    3329325298]"

definition H256 :: "nat list" where
  "H256 = [1779033703, 3144134277, 1013904242, 2773480762, 1359893119, 2600822924, 528734635,
    1541459225]"

text \<open>The message schedule: word \<open>t\<close>, for \<open>t\<close> from 16 to 63, from the words before it.\<close>

definition extend :: "nat list \<Rightarrow> nat \<Rightarrow> nat list" where
  "extend ws t =
     ws @ [add32 (add32 (add32 (ssig1 (ws ! (t - 2))) (ws ! (t - 7))) (ssig0 (ws ! (t - 15))))
             (ws ! (t - 16))]"

definition schedule :: "nat list \<Rightarrow> nat list" where
  "schedule ws = foldl extend ws [16..<64]"

fun round256 :: "nat list \<Rightarrow> nat \<times> nat \<Rightarrow> nat list" where
  "round256 [a, b, c, d, e, f, g, h] (k, w) =
     (let t1 = add32 (add32 (add32 (add32 h (bsig1 e)) (Ch e f g)) k) w;
          t2 = add32 (bsig0 a) (Maj a b c)
      in [add32 t1 t2, a, b, c, add32 d t1, e, f, g])"
| "round256 s _ = s"

definition compress :: "nat list \<Rightarrow> nat list \<Rightarrow> nat list" where
  "compress hs ws = map2 add32 hs (foldl round256 hs (zip K256 (schedule ws)))"

fun be_words :: "nat list \<Rightarrow> nat list" where
  "be_words (a # b # c # d # rest) = (((a * 256 + b) * 256 + c) * 256 + d) # be_words rest"
| "be_words _ = []"

function chunks16 :: "nat list \<Rightarrow> nat list list" where
  "chunks16 ws = (if ws = [] then [] else take 16 ws # chunks16 (drop 16 ws))"
  by pat_completeness auto
termination
  by (relation "measure length") auto

declare chunks16.simps [simp del]

definition be_bytes8 :: "nat \<Rightarrow> nat list" where
  "be_bytes8 n = map (\<lambda>i. (n div 256 ^ i) mod 256) [7, 6, 5, 4, 3, 2, 1, 0]"

definition pad :: "nat list \<Rightarrow> nat list" where
  "pad m = m @ [128] @ replicate ((119 - length m mod 64) mod 64) 0 @ be_bytes8 (8 * length m)"

definition hex32 :: "nat \<Rightarrow> string" where
  "hex32 w = map (\<lambda>i. digit_char ((w div 16 ^ i) mod 16)) [7, 6, 5, 4, 3, 2, 1, 0]"

definition sha256_hex :: "string \<Rightarrow> string" where
  "sha256_hex s =
     concat (map hex32 (foldl compress H256 (chunks16 (be_words (pad (map of_char s))))))"

section \<open>The ledger of the demonstration\<close>

text \<open>
  The wallets of the program's own run, with short addresses, and the ledger after
  \<^verbatim>\<open>chain = Blockchain(difficulty=3); chain.genesis(alice, 1.5)\<close>, with exact amounts.
\<close>

definition alice :: wallet where
  "alice = \<lparr>private_key = ''ka'', public_key = ''pa'', address = ''A''\<rparr>"


definition carol :: wallet where
  "carol = \<lparr>private_key = ''kc'', public_key = ''pc'', address = ''C''\<rparr>"

definition ledger_g :: "rat ledger" where
  "ledger_g = genesis alice (3 / 2) (Blockchain 3)"

definition tx_unknown :: "rat tx" where
  "tx_unknown =
     \<lparr>tx_inputs = [\<lparr>in_txid = ''genesis1'', in_vout = 0\<rparr>, \<lparr>in_txid = ''genesis1'', in_vout = 1\<rparr>],
      tx_outputs = [\<lparr>o_address = ''B'', o_amount = 1\<rparr>],
      tx_timestamp = 0, tx_txid = ''t0'', tx_signature = None\<rparr>"

text \<open>
  Ledgers with integer amounts, of difficulty 0, for which the search ends at the first
  nonce, and a stand-in digest \<open>toy_hash\<close>, used only for an example in which the search
  takes fifteen attempts (it is not SHA-256; no general theorem depends on it).
\<close>

definition toy_hash :: "string \<Rightarrow> string" where
  "toy_hash s = hex4 ((sum_list (map of_char s) * 7919) mod 65536)"

definition tx_pay :: "int tx" where
  "tx_pay =
     \<lparr>tx_inputs = [\<lparr>in_txid = ''genesis1'', in_vout = 0\<rparr>],
      tx_outputs = [\<lparr>o_address = ''B'', o_amount = 3\<rparr>, \<lparr>o_address = ''A'', o_amount = 2\<rparr>],
      tx_timestamp = 0, tx_txid = ''t1'', tx_signature = None\<rparr>"


definition ledger_i :: "int ledger" where
  "ledger_i = genesis alice 5 (Blockchain 0)"

definition ledger_p :: "int ledger" where
  "ledger_p = ledger_i\<lparr>mempool := [tx_pay]\<rparr>"


section \<open>Admission: rejection of unknown inputs\<close>

lemma sum_inputs_absent:
  "i \<in> set ins \<Longrightarrow> map_of us (ref_of i) = None \<Longrightarrow> sum_inputs us ins acc = None"
  by (induction ins arbitrary: acc) (auto split: option.splits)

text \<open>
  Claim C2. If some input of a transaction refers to a key (txid, vout) that is not in the
  UTXO set, \<^verbatim>\<open>add_tx\<close> returns \<^verbatim>\<open>False\<close> and the ledger (UTXO set, mempool and chain)
  is the one it was called on.
\<close>

theorem add_tx_absent_input:
  assumes "i \<in> set (tx_inputs t)" and "map_of (utxos L) (ref_of i) = None"
  shows "add_tx L t = (L, False)"
proof -
  have "sum_inputs (utxos L) (tx_inputs t) 0 = None"
    using assms by (rule sum_inputs_absent)
  then show ?thesis
    by (simp add: add_tx_def verify_tx_def)
qed

lemma str_nat_1: "str_nat (Suc 0) = ''1''"
  by (simp add: str_nat.simps digit_char_def)

lemma ledger_g_eq:
  "ledger_g =
     \<lparr>chain = [],
      utxos = [((''genesis1'', 0),
                \<lparr>u_txid = ''genesis1'', u_vout = 0, u_address = ''A'', u_amount = 3 / 2\<rparr>)],
      difficulty = 3, mempool = []\<rparr>"
  by (simp add: ledger_g_def genesis_def Blockchain_def alice_def str_nat_1 Let_def)

theorem add_tx_absent_input_witness:
  "\<lparr>in_txid = ''genesis1'', in_vout = 1\<rparr> \<in> set (tx_inputs tx_unknown)
   \<and> map_of (utxos ledger_g) (ref_of \<lparr>in_txid = ''genesis1'', in_vout = 1\<rparr>) = None
   \<and> add_tx ledger_g tx_unknown = (ledger_g, False)"
proof -
  have h1: "\<lparr>in_txid = ''genesis1'', in_vout = 1\<rparr> \<in> set (tx_inputs tx_unknown)"
    by (simp add: tx_unknown_def)
  have h2: "map_of (utxos ledger_g) (ref_of \<lparr>in_txid = ''genesis1'', in_vout = 1\<rparr>) = None"
    by (simp add: ledger_g_eq ref_of_def)
  from add_tx_absent_input [OF h1 h2] h1 h2 show ?thesis
    by simp
qed

section \<open>Mining: the UTXO set after a block\<close>








lemma ledger_i_eq:
  "ledger_i =
     \<lparr>chain = [],
      utxos = [((''genesis1'', 0),
                \<lparr>u_txid = ''genesis1'', u_vout = 0, u_address = ''A'', u_amount = 5\<rparr>)],
      difficulty = 0, mempool = []\<rparr>"
  by (simp add: ledger_i_def genesis_def Blockchain_def alice_def str_nat_1 Let_def)

lemma pow_loop_easy:
  "d \<le> 0 \<Longrightarrow> pow_loop H d s n = Some (n, H (s @ str_nat n))"
  by (subst pow_loop.simps) (simp add: startswith_def)





lemma ledger_p_eq:
  "add_tx ledger_i tx_pay = (ledger_p, True)"
  by (simp add: add_tx_def verify_tx_def ledger_p_def ledger_i_eq tx_pay_def ref_of_def sum_outputs_def)




section \<open>Admission and the signature\<close>




section \<open>Inputs counted once per occurrence\<close>



definition tx_b :: "int tx" where
  "tx_b =
     \<lparr>tx_inputs = [\<lparr>in_txid = ''genesis1'', in_vout = 0\<rparr>],
      tx_outputs = [\<lparr>o_address = ''B'', o_amount = 5\<rparr>],
      tx_timestamp = 0, tx_txid = ''t1'', tx_signature = None\<rparr>"

definition tx_c :: "int tx" where
  "tx_c =
     \<lparr>tx_inputs = [\<lparr>in_txid = ''genesis1'', in_vout = 0\<rparr>],
      tx_outputs = [\<lparr>o_address = ''C'', o_amount = 5\<rparr>],
      tx_timestamp = 1, tx_txid = ''t2'', tx_signature = None\<rparr>"

definition ledger_bc :: "int ledger" where
  "ledger_bc = ledger_i\<lparr>mempool := [tx_b, tx_c]\<rparr>"

lemma mine_block_easy_eq:
  "difficulty L \<le> 0 \<Longrightarrow>
   mine_block H repr now w L =
     Some ((foldl apply_tx L (mempool L))
        \<lparr>mempool := [],
         chain := chain L @
           [\<lparr>b_timestamp = now, b_tx = mempool L, b_miner = address w, b_nonce = 0,
             b_hash = H (dumps repr (block_json
               \<lparr>b_timestamp = now, b_tx = mempool L, b_miner = address w,
                b_nonce = 0, b_hash = []\<rparr>) @ str_nat 0)\<rparr>]\<rparr>)"
  by (simp add: mine_block_def Let_def pow_loop_easy)

lemma total_value_upd [simp]:
  "total_value (L\<lparr>mempool := m, chain := c\<rparr>) = total_value L"
  by (simp add: total_value_def)



section \<open>Conservation of value\<close>

text \<open>
  Claim C1 fails on the program. From the ledger holding one UTXO of 5, two transactions
  that both spend that UTXO are admitted one after the other, since \<^verbatim>\<open>add_tx\<close> checks
  inputs against the UTXO set only; mining applies both, and the total of the UTXO set
  goes from 5 to 10.
\<close>

theorem double_spend_in_mempool:
  "add_tx ledger_i tx_b = (ledger_i\<lparr>mempool := [tx_b]\<rparr>, True)
   \<and> add_tx (ledger_i\<lparr>mempool := [tx_b]\<rparr>) tx_c = (ledger_bc, True)
   \<and> total_value ledger_bc = 5
   \<and> (\<forall>H repr now w. map_option utxos (mine_block H repr now w ledger_bc) =
        Some [((''t1'', 0), \<lparr>u_txid = ''t1'', u_vout = 0, u_address = ''B'', u_amount = 5\<rparr>),
              ((''t2'', 0), \<lparr>u_txid = ''t2'', u_vout = 0, u_address = ''C'', u_amount = 5\<rparr>)])
   \<and> (\<forall>H repr now w. map_option total_value (mine_block H repr now w ledger_bc) = Some 10)"
proof -
  have a: "add_tx ledger_i tx_b = (ledger_i\<lparr>mempool := [tx_b]\<rparr>, True)"
    by (simp add: add_tx_def verify_tx_def ledger_i_eq tx_b_def ref_of_def sum_outputs_def)
  have b: "add_tx (ledger_i\<lparr>mempool := [tx_b]\<rparr>) tx_c = (ledger_bc, True)"
    by (simp add: add_tx_def verify_tx_def ledger_bc_def ledger_i_eq tx_c_def ref_of_def
        sum_outputs_def)
  have c: "total_value ledger_bc = 5"
    by (simp add: total_value_def ledger_bc_def ledger_i_eq)
  have d: "difficulty ledger_bc \<le> 0"
    by (simp add: ledger_bc_def ledger_i_eq)
  have e: "map_option utxos (mine_block H repr now w ledger_bc) =
        Some [((''t1'', 0), \<lparr>u_txid = ''t1'', u_vout = 0, u_address = ''B'', u_amount = 5\<rparr>),
              ((''t2'', 0), \<lparr>u_txid = ''t2'', u_vout = 0, u_address = ''C'', u_amount = 5\<rparr>)]"
    for H repr now w
    by (simp add: mine_block_easy_eq [OF d])
      (simp add: ledger_bc_def ledger_i_eq apply_tx_def tx_b_def tx_c_def ref_of_def)
  have f: "map_option total_value (mine_block H repr now w ledger_bc) = Some 10" for H repr now w
    by (simp add: mine_block_easy_eq [OF d])
      (simp add: total_value_def ledger_bc_def ledger_i_eq apply_tx_def tx_b_def tx_c_def ref_of_def)
  from a b c e f show ?thesis
    by blast
qed

section \<open>Proof of work\<close>

definition target_met :: "(string \<Rightarrow> string) \<Rightarrow> int \<Rightarrow> string \<Rightarrow> nat \<Rightarrow> bool" where
  "target_met H d s n = startswith (H (s @ str_nat n)) (replicate (nat d) CHR ''0'')"

lemma pow_loop_unfold:
  "pow_loop H d s k =
     (if target_met H d s k then Some (k, H (s @ str_nat k)) else pow_loop H d s (Suc k))"
  by (subst pow_loop.simps) (simp add: target_met_def)

lemma pow_loop_sound:
  assumes "pow_loop H d s k = Some y"
  shows "k \<le> fst y \<and> snd y = H (s @ str_nat (fst y)) \<and> target_met H d s (fst y)
   \<and> (\<forall>j. k \<le> j \<and> j < fst y \<longrightarrow> \<not> target_met H d s j)"
proof (rule pow_loop.raw_induct [where P = "\<lambda>H d s k y.
    k \<le> fst y \<and> snd y = H (s @ str_nat (fst y)) \<and> target_met H d s (fst y)
    \<and> (\<forall>j. k \<le> j \<and> j < fst y \<longrightarrow> \<not> target_met H d s j)", OF _ assms])
  fix f :: "(string \<Rightarrow> string) \<Rightarrow> int \<Rightarrow> string \<Rightarrow> nat \<Rightarrow> (nat \<times> string) option"
  fix H d s k y
  assume IH: "\<And>H d s k y. f H d s k = Some y \<Longrightarrow>
      k \<le> fst y \<and> snd y = H (s @ str_nat (fst y)) \<and> target_met H d s (fst y)
      \<and> (\<forall>j. k \<le> j \<and> j < fst y \<longrightarrow> \<not> target_met H d s j)"
    and eq: "(if startswith (H (s @ str_nat k)) (replicate (nat d) CHR ''0'')
              then Some (k, H (s @ str_nat k)) else f H d s (k + 1)) = Some y"
  show "k \<le> fst y \<and> snd y = H (s @ str_nat (fst y)) \<and> target_met H d s (fst y)
      \<and> (\<forall>j. k \<le> j \<and> j < fst y \<longrightarrow> \<not> target_met H d s j)"
  proof (cases "target_met H d s k")
    case True
    with eq have "y = (k, H (s @ str_nat k))"
      by (simp add: target_met_def)
    with True show ?thesis
      by auto
  next
    case False
    with eq have "f H d s (k + 1) = Some y"
      by (simp add: target_met_def)
    from IH [OF this] have ih: "k + 1 \<le> fst y" "snd y = H (s @ str_nat (fst y))"
      "target_met H d s (fst y)" "\<forall>j. k + 1 \<le> j \<and> j < fst y \<longrightarrow> \<not> target_met H d s j"
      by blast+
    have nt: "\<not> target_met H d s j" if "k \<le> j" "j < fst y" for j
    proof (cases "j = k")
      case True
      with False show ?thesis by simp
    next
      case False
      with that have "k + 1 \<le> j" by simp
      with ih(4) that show ?thesis by blast
    qed
    have a: "k \<le> fst y"
      using ih(1) by simp
    have b: "\<forall>j. k \<le> j \<and> j < fst y \<longrightarrow> \<not> target_met H d s j"
      using nt by blast
    from a ih(2) ih(3) b show ?thesis
      by blast
  qed
qed

lemma pow_loop_least:
  "k \<le> m \<Longrightarrow> target_met H d s m \<Longrightarrow> \<forall>j. k \<le> j \<and> j < m \<longrightarrow> \<not> target_met H d s j \<Longrightarrow>
   pow_loop H d s k = Some (m, H (s @ str_nat m))"
proof (induction "m - k" arbitrary: k)
  case 0
  then have "k = m" by simp
  with 0 show ?case
    by (subst pow_loop_unfold) simp
next
  case (Suc x)
  then have "k < m" by simp
  with Suc.prems have "\<not> target_met H d s k" by simp
  moreover have "pow_loop H d s (Suc k) = Some (m, H (s @ str_nat m))"
    using Suc.hyps(2) Suc.prems \<open>k < m\<close> by (intro Suc.hyps(1)) auto
  ultimately show ?case
    by (subst pow_loop_unfold) simp
qed

lemma block_json_hash [simp]: "block_json (b\<lparr>b_hash := h\<rparr>) = block_json b"
  by (simp add: block_json_def)

lemma mine_block_Some_pow:
  assumes "mine_block H repr now w L = Some L'"
  shows "\<exists>nonce h.
     pow_loop H (difficulty L) (dumps repr (block_json
         \<lparr>b_timestamp = now, b_tx = mempool L, b_miner = address w, b_nonce = 0, b_hash = []\<rparr>)) 0
       = Some (nonce, h)
     \<and> last (chain L') = \<lparr>b_timestamp = now, b_tx = mempool L, b_miner = address w,
                            b_nonce = nonce, b_hash = h\<rparr>"
  using assms by (auto simp: mine_block_def Let_def split: option.splits)

text \<open>
  Claim C4, as amended. The hash recorded in a mined block is the digest of the
  serialization of the block's fields \<open>timestamp\<close>, \<open>tx\<close>, \<open>miner\<close> with \<open>nonce\<close> 0, as it
  was computed once before the search, followed by the decimal string of the recorded nonce.
\<close>

theorem mine_block_hash:
  assumes "mine_block H repr now w L = Some L'"
  shows "b_hash (last (chain L')) =
     H (dumps repr (block_json ((last (chain L'))\<lparr>b_nonce := 0\<rparr>))
        @ str_nat (b_nonce (last (chain L'))))"
proof -
  from mine_block_Some_pow [OF assms] obtain nonce h where
    pow: "pow_loop H (difficulty L) (dumps repr (block_json
         \<lparr>b_timestamp = now, b_tx = mempool L, b_miner = address w, b_nonce = 0, b_hash = []\<rparr>)) 0
       = Some (nonce, h)"
    and blk: "last (chain L') = \<lparr>b_timestamp = now, b_tx = mempool L, b_miner = address w,
                            b_nonce = nonce, b_hash = h\<rparr>"
    by blast
  from pow_loop_sound [OF pow] have "h = H (dumps repr (block_json
         \<lparr>b_timestamp = now, b_tx = mempool L, b_miner = address w, b_nonce = 0, b_hash = []\<rparr>)
        @ str_nat nonce)"
    by simp
  then show ?thesis
    by (simp add: blk block_json_def)
qed

text \<open>
  Claim C5. If some nonce meets the target, \<^verbatim>\<open>mine_block\<close> returns, the nonce it records
  is the least \<open>n\<close> for which the digest of the serialization computed before the loop,
  followed by the decimal string of \<open>n\<close>, starts with \<open>difficulty\<close> characters \<open>0\<close>, and
  the hash it records is that digest.
\<close>

theorem mine_block_least_nonce:
  assumes "\<exists>n. target_met H (difficulty L) (dumps repr (block_json
      \<lparr>b_timestamp = now, b_tx = mempool L, b_miner = address w, b_nonce = 0, b_hash = []\<rparr>)) n"
  shows "\<exists>L'. mine_block H repr now w L = Some L'
    \<and> b_nonce (last (chain L')) = (LEAST n. target_met H (difficulty L) (dumps repr (block_json
        \<lparr>b_timestamp = now, b_tx = mempool L, b_miner = address w, b_nonce = 0, b_hash = []\<rparr>)) n)
    \<and> b_hash (last (chain L')) = H (dumps repr (block_json
        \<lparr>b_timestamp = now, b_tx = mempool L, b_miner = address w, b_nonce = 0, b_hash = []\<rparr>)
          @ str_nat (b_nonce (last (chain L'))))
    \<and> startswith (b_hash (last (chain L'))) (replicate (nat (difficulty L)) CHR ''0'')"
proof -
  define s where "s = dumps repr (block_json
      \<lparr>b_timestamp = now, b_tx = mempool L, b_miner = address w, b_nonce = 0, b_hash = []\<rparr>)"
  define m where "m = (LEAST n. target_met H (difficulty L) s n)"
  from assms have ex: "\<exists>n. target_met H (difficulty L) s n"
    by (simp add: s_def)
  then have m: "target_met H (difficulty L) s m"
    unfolding m_def by (metis LeastI)
  have least: "\<forall>j. 0 \<le> j \<and> j < m \<longrightarrow> \<not> target_met H (difficulty L) s j"
    unfolding m_def using not_less_Least by blast
  have "pow_loop H (difficulty L) s 0 = Some (m, H (s @ str_nat m))"
    using m least by (intro pow_loop_least) auto
  then have "mine_block H repr now w L =
      Some ((foldl apply_tx L (mempool L))
        \<lparr>mempool := [],
         chain := chain L @ [\<lparr>b_timestamp = now, b_tx = mempool L, b_miner = address w,
                              b_nonce = m, b_hash = H (s @ str_nat m)\<rparr>]\<rparr>)"
    by (simp add: mine_block_def Let_def s_def)
  with m have "\<exists>L'. mine_block H repr now w L = Some L'
    \<and> b_nonce (last (chain L')) = m
    \<and> b_hash (last (chain L')) = H (s @ str_nat (b_nonce (last (chain L'))))
    \<and> startswith (b_hash (last (chain L'))) (replicate (nat (difficulty L)) CHR ''0'')"
    by (simp add: target_met_def)
  then show ?thesis
    unfolding m_def s_def .
qed

definition ledger_e :: "int ledger" where
  "ledger_e = Blockchain 1"

definition ledger_e_mined :: "int ledger" where
  "ledger_e_mined =
     \<lparr>chain = [\<lparr>b_timestamp = ''T'', b_tx = [], b_miner = ''C'', b_nonce = 14, b_hash = ''0772''\<rparr>],
      utxos = [], difficulty = 1, mempool = []\<rparr>"

lemma skeleton_e:
  "dumps str_int (block_json \<lparr>b_timestamp = ''T'', b_tx = [], b_miner = ''C'', b_nonce = 0, b_hash = []\<rparr>)
   = ''{'' @ CHR 0x22 # ''miner'' @ CHR 0x22 # '': '' @ CHR 0x22 # ''C'' @ CHR 0x22 # '', ''
     @ CHR 0x22 # ''nonce'' @ CHR 0x22 # '': 0, ''
     @ CHR 0x22 # ''timestamp'' @ CHR 0x22 # '': '' @ CHR 0x22 # ''T'' @ CHR 0x22 # '', ''
     @ CHR 0x22 # ''tx'' @ CHR 0x22 # '': []}''"
  by (simp add: block_json_def json_str_def escape_char_def str_int_def str_nat.simps digit_char_def)

lemma mine_e: "mine_block toy_hash str_int ''T'' carol ledger_e = Some ledger_e_mined"
  unfolding mine_block_def ledger_e_def Blockchain_def carol_def
  by (simp add: skeleton_e Let_def)
    (simp add: pow_loop.simps startswith_def toy_hash_def hex4_def digit_char_def str_nat.simps
      ledger_e_mined_def)


lemma skeleton_e14:
  "dumps str_int (block_json \<lparr>b_timestamp = ''T'', b_tx = [], b_miner = ''C'', b_nonce = 14, b_hash = h\<rparr>)
   = ''{'' @ CHR 0x22 # ''miner'' @ CHR 0x22 # '': '' @ CHR 0x22 # ''C'' @ CHR 0x22 # '', ''
     @ CHR 0x22 # ''nonce'' @ CHR 0x22 # '': 14, ''
     @ CHR 0x22 # ''timestamp'' @ CHR 0x22 # '': '' @ CHR 0x22 # ''T'' @ CHR 0x22 # '', ''
     @ CHR 0x22 # ''tx'' @ CHR 0x22 # '': []}''"
  by (simp add: block_json_def json_str_def escape_char_def str_int_def str_nat.simps digit_char_def)

lemma digit_char_not_brace: "k < 10 \<Longrightarrow> digit_char k \<noteq> CHR ''}''"
proof -
  assume "k < 10"
  then have "k \<in> {0, 1, 2, 3, 4, 5, 6, 7, 8, 9}"
    by auto
  then show ?thesis
    by (auto simp: digit_char_def)
qed

lemma str_nat_last: "str_nat n \<noteq> [] \<and> last (str_nat n) = digit_char (n mod 10)"
  by (subst (1 2) str_nat.simps) simp

lemma dumps_block_last: "last (dumps repr (block_json b)) = CHR ''}''"
  by (simp add: block_json_def)

lemma preimages_differ:
  "dumps repr (block_json b) \<noteq> dumps repr' (block_json b') @ str_nat n"
proof
  assume eq: "dumps repr (block_json b) = dumps repr' (block_json b') @ str_nat n"
  have "last (dumps repr' (block_json b') @ str_nat n) = digit_char (n mod 10)"
    using str_nat_last [of n] by simp
  with eq dumps_block_last [of repr b] have "digit_char (n mod 10) = CHR ''}''"
    by simp
  moreover have "digit_char (n mod 10) \<noteq> CHR ''}''"
    by (rule digit_char_not_brace) simp
  ultimately show False
    by simp
qed

theorem mine_block_hash_witness:
  "mine_block toy_hash str_int ''T'' carol ledger_e = Some ledger_e_mined
   \<and> b_nonce (last (chain ledger_e_mined)) = 14
   \<and> b_hash (last (chain ledger_e_mined)) =
       toy_hash (dumps str_int (block_json ((last (chain ledger_e_mined))\<lparr>b_nonce := 0\<rparr>))
                 @ str_nat (b_nonce (last (chain ledger_e_mined))))"
  using mine_block_hash [OF mine_e] mine_e by (simp add: ledger_e_mined_def)

section \<open>The digest of the program on a mined block\<close>

lemmas sha_ops = add32_def rotr_def Ch_def Maj_def bsig0_def bsig1_def ssig0_def ssig1_def

lemma replicate_num: "replicate (numeral n) (0::nat) = 0 # replicate (pred_numeral n) 0"
  by (simp only: numeral_eq_Suc replicate_Suc)

lemma chunks16_one: "length ws = 16 \<Longrightarrow> chunks16 ws = [ws]"
  by (subst chunks16.simps, subst chunks16.simps) auto

text \<open>The model of SHA-256 on the test vector of FIPS 180-4.\<close>

lemma abc_words:
  "be_words (pad (map of_char (''abc''))) =
     [1633837952, 0, 0, 0, 0, 0,
     0, 0, 0, 0, 0, 0,
     0, 0, 0, 24]"
  by (simp add: pad_def be_bytes8_def replicate_num)

lemma abc_schedule:
  "schedule [1633837952, 0, 0, 0, 0, 0,
     0, 0, 0, 0, 0, 0,
     0, 0, 0, 24] =
     [1633837952, 0, 0, 0, 0, 0,
     0, 0, 0, 0, 0, 0,
     0, 0, 0, 24, 1633837952, 983040,
     2108187653, 1610613702, 1050508152, 25426944, 316456923, 3806512014,
     3357629466, 3073800610, 3854317833, 845560923, 2636160359, 3968280267,
     1881225380, 3552024379, 2482346367, 996719219, 2952069057, 4043988066,
     176896406, 1924104970, 2483675966, 610538786, 2672279444, 4037431130,
     1042573945, 657669027, 206005234, 2215296807, 2049510749, 106709978,
     4215179723, 3430291419, 3118885940, 2845390439, 2226839261, 3256115900,
     344409900, 2987358873, 4015503821, 3957764664, 2682456414, 2025622859,
     2755645205, 1720397816, 4004225740, 313650667]"
  by (simp add: schedule_def extend_def sha_ops)

lemma abc_rounds:
  "foldl round256 H256 (zip K256 [1633837952, 0, 0, 0, 0, 0,
     0, 0, 0, 0, 0, 0,
     0, 0, 0, 24, 1633837952, 983040,
     2108187653, 1610613702, 1050508152, 25426944, 316456923, 3806512014,
     3357629466, 3073800610, 3854317833, 845560923, 2636160359, 3968280267,
     1881225380, 3552024379, 2482346367, 996719219, 2952069057, 4043988066,
     176896406, 1924104970, 2483675966, 610538786, 2672279444, 4037431130,
     1042573945, 657669027, 206005234, 2215296807, 2049510749, 106709978,
     4215179723, 3430291419, 3118885940, 2845390439, 2226839261, 3256115900,
     344409900, 2987358873, 4015503821, 3957764664, 2682456414, 2025622859,
     2755645205, 1720397816, 4004225740, 313650667]) =
     [1349398616, 3550093669, 80891244, 3093179625, 1593118500, 4212265488,
     2492278198, 2518632596]"
  by (simp add: H256_def K256_def sha_ops Let_def)

lemma abc_compress:
  "compress H256 [1633837952, 0, 0, 0, 0, 0,
     0, 0, 0, 0, 0, 0,
     0, 0, 0, 24] =
     [3128432319, 2399260650, 1094795486, 1571693091, 2953011619, 2518121116,
     3021012833, 4060091821]"
  unfolding compress_def abc_schedule abc_rounds
  by (simp add: H256_def add32_def)

lemma abc_digest:
  "sha256_hex (''abc'') = ''ba7816bf8f01cfea414140de5dae2223b00361a396177a9cb410ff61f20015ad''"
  unfolding sha256_hex_def abc_words
  by (simp add: chunks16_one abc_compress hex32_def digit_char_def)

lemma block0_words:
  "be_words (pad (map of_char (''{'' @ [CHR 0x22] @ ''miner'' @ [CHR 0x22] @ '': '' @ [CHR 0x22] @ ''C'' @ [CHR 0x22] @ '', '' @ [CHR 0x22] @ ''nonce'' @ [CHR 0x22] @ '': 0, '' @ [CHR 0x22] @ ''timestamp'' @ [CHR 0x22] @ '': '' @ [CHR 0x22] @ ''T'' @ [CHR 0x22] @ '', '' @ [CHR 0x22] @ ''tx'' @ [CHR 0x22] @ '': []}''))) =
     [2065853801, 1852142114, 975184451, 573317154, 1852796515, 1696741920,
     808198178, 1953066341, 1937006957, 1881291296, 575939116, 539128952,
     574234715, 1568505856, 0, 432]"
  by (simp add: pad_def be_bytes8_def replicate_num)

lemma block0_schedule:
  "schedule [2065853801, 1852142114, 975184451, 573317154, 1852796515, 1696741920,
     808198178, 1953066341, 1937006957, 1881291296, 575939116, 539128952,
     574234715, 1568505856, 0, 432] =
     [2065853801, 1852142114, 975184451, 573317154, 1852796515, 1696741920,
     808198178, 1953066341, 1937006957, 1881291296, 575939116, 539128952,
     574234715, 1568505856, 0, 432, 14526146, 457711314,
     168125094, 1638254034, 2883079669, 165322758, 4275526338, 1176240087,
     2502898910, 1319997067, 1780858476, 2090344722, 740857, 1896428185,
     1976279779, 1105042201, 2510745910, 443220225, 112845035, 799611990,
     2389979575, 2045277607, 960379734, 1928607898, 122946428, 2864062424,
     1053678664, 4173954937, 1073469404, 1537187196, 3596130966, 1242240669,
     1606625671, 4054383164, 3760721807, 1154092761, 1288230250, 3160931855,
     670213018, 3420175389, 581578448, 357828962, 2307485135, 362935439,
     2893809675, 1512528160, 500578786, 2206083457]"
  by (simp add: schedule_def extend_def sha_ops)

lemma block0_rounds:
  "foldl round256 H256 (zip K256 [2065853801, 1852142114, 975184451, 573317154, 1852796515, 1696741920,
     808198178, 1953066341, 1937006957, 1881291296, 575939116, 539128952,
     574234715, 1568505856, 0, 432, 14526146, 457711314,
     168125094, 1638254034, 2883079669, 165322758, 4275526338, 1176240087,
     2502898910, 1319997067, 1780858476, 2090344722, 740857, 1896428185,
     1976279779, 1105042201, 2510745910, 443220225, 112845035, 799611990,
     2389979575, 2045277607, 960379734, 1928607898, 122946428, 2864062424,
     1053678664, 4173954937, 1073469404, 1537187196, 3596130966, 1242240669,
     1606625671, 4054383164, 3760721807, 1154092761, 1288230250, 3160931855,
     670213018, 3420175389, 581578448, 357828962, 2307485135, 362935439,
     2893809675, 1512528160, 500578786, 2206083457]) =
     [3409815522, 475660696, 950457258, 2097450801, 2561070906, 1440874865,
     110417194, 1328259591]"
  by (simp add: H256_def K256_def sha_ops Let_def)

lemma block0_compress:
  "compress H256 [2065853801, 1852142114, 975184451, 573317154, 1852796515, 1696741920,
     808198178, 1953066341, 1937006957, 1881291296, 575939116, 539128952,
     574234715, 1568505856, 0, 432] =
     [893881929, 3619794973, 1964361500, 575964267, 3920964025, 4041697789,
     639151829, 2869718816]"
  unfolding compress_def block0_schedule block0_rounds
  by (simp add: H256_def add32_def)

lemma block0_digest:
  "sha256_hex (''{'' @ [CHR 0x22] @ ''miner'' @ [CHR 0x22] @ '': '' @ [CHR 0x22] @ ''C'' @ [CHR 0x22] @ '', '' @ [CHR 0x22] @ ''nonce'' @ [CHR 0x22] @ '': 0, '' @ [CHR 0x22] @ ''timestamp'' @ [CHR 0x22] @ '': '' @ [CHR 0x22] @ ''T'' @ [CHR 0x22] @ '', '' @ [CHR 0x22] @ ''tx'' @ [CHR 0x22] @ '': []}'') = ''35478e49d7c1b01d7515c71c2254846be9b529b9f0e769fd2618aed5ab0c6f20''"
  unfolding sha256_hex_def block0_words
  by (simp add: chunks16_one block0_compress hex32_def digit_char_def)

lemma block00_words:
  "be_words (pad (map of_char (''{'' @ [CHR 0x22] @ ''miner'' @ [CHR 0x22] @ '': '' @ [CHR 0x22] @ ''C'' @ [CHR 0x22] @ '', '' @ [CHR 0x22] @ ''nonce'' @ [CHR 0x22] @ '': 0, '' @ [CHR 0x22] @ ''timestamp'' @ [CHR 0x22] @ '': '' @ [CHR 0x22] @ ''T'' @ [CHR 0x22] @ '', '' @ [CHR 0x22] @ ''tx'' @ [CHR 0x22] @ '': []}0''))) =
     [2065853801, 1852142114, 975184451, 573317154, 1852796515, 1696741920,
     808198178, 1953066341, 1937006957, 1881291296, 575939116, 539128952,
     574234715, 1568485504, 0, 440]"
  by (simp add: pad_def be_bytes8_def replicate_num)

lemma block00_schedule:
  "schedule [2065853801, 1852142114, 975184451, 573317154, 1852796515, 1696741920,
     808198178, 1953066341, 1937006957, 1881291296, 575939116, 539128952,
     574234715, 1568485504, 0, 440] =
     [2065853801, 1852142114, 975184451, 573317154, 1852796515, 1696741920,
     808198178, 1953066341, 1937006957, 1881291296, 575939116, 539128952,
     574234715, 1568485504, 0, 440, 14526146, 457514706,
     168125094, 2175125653, 2883059317, 218604547, 3494336948, 1755116323,
     2533262196, 3063726011, 2672120624, 3457644132, 2052103338, 2207384904,
     921295260, 3335965192, 1884634514, 2365350933, 1519832931, 3159484670,
     3698302960, 3003542795, 1247416254, 791259140, 3095766429, 408350282,
     3484580366, 3523583270, 2683543725, 2479303781, 3326953455, 1485147089,
     3077229583, 1332913962, 4246050382, 2171754627, 2219630172, 3606448249,
     4284402369, 4037128723, 4037565117, 2681129753, 2819050247, 3020259286,
     3589855516, 975259876, 4192040131, 2433636951]"
  by (simp add: schedule_def extend_def sha_ops)

lemma block00_rounds:
  "foldl round256 H256 (zip K256 [2065853801, 1852142114, 975184451, 573317154, 1852796515, 1696741920,
     808198178, 1953066341, 1937006957, 1881291296, 575939116, 539128952,
     574234715, 1568485504, 0, 440, 14526146, 457514706,
     168125094, 2175125653, 2883059317, 218604547, 3494336948, 1755116323,
     2533262196, 3063726011, 2672120624, 3457644132, 2052103338, 2207384904,
     921295260, 3335965192, 1884634514, 2365350933, 1519832931, 3159484670,
     3698302960, 3003542795, 1247416254, 791259140, 3095766429, 408350282,
     3484580366, 3523583270, 2683543725, 2479303781, 3326953455, 1485147089,
     3077229583, 1332913962, 4246050382, 2171754627, 2219630172, 3606448249,
     4284402369, 4037128723, 4037565117, 2681129753, 2819050247, 3020259286,
     3589855516, 975259876, 4192040131, 2433636951]) =
     [666602195, 4151992538, 387511097, 3369771338, 1203383596, 284659073,
     1533367346, 3796167509]"
  by (simp add: H256_def K256_def sha_ops Let_def)

lemma block00_compress:
  "compress H256 [2065853801, 1852142114, 975184451, 573317154, 1852796515, 1696741920,
     808198178, 1953066341, 1937006957, 1881291296, 575939116, 539128952,
     574234715, 1568485504, 0, 440] =
     [2445635898, 3001159519, 1401415339, 1848284804, 2563276715, 2885481997,
     2062101981, 1042659438]"
  unfolding compress_def block00_schedule block00_rounds
  by (simp add: H256_def add32_def)

lemma block00_digest:
  "sha256_hex (''{'' @ [CHR 0x22] @ ''miner'' @ [CHR 0x22] @ '': '' @ [CHR 0x22] @ ''C'' @ [CHR 0x22] @ '', '' @ [CHR 0x22] @ ''nonce'' @ [CHR 0x22] @ '': 0, '' @ [CHR 0x22] @ ''timestamp'' @ [CHR 0x22] @ '': '' @ [CHR 0x22] @ ''T'' @ [CHR 0x22] @ '', '' @ [CHR 0x22] @ ''tx'' @ [CHR 0x22] @ '': []}0'') = ''91c5713ab2e20f5f5387e6ab6e2a968498c87fababfcf60d7ae92ddd3e25b86e''"
  unfolding sha256_hex_def block00_words
  by (simp add: chunks16_one block00_compress hex32_def digit_char_def)

definition ledger_0 :: "int ledger" where
  "ledger_0 = Blockchain 0"

definition ledger_0_mined :: "int ledger" where
  "ledger_0_mined =
     \<lparr>chain = [\<lparr>b_timestamp = ''T'', b_tx = [], b_miner = ''C'', b_nonce = 0,
                 b_hash = ''91c5713ab2e20f5f5387e6ab6e2a968498c87fababfcf60d7ae92ddd3e25b86e''\<rparr>],
      utxos = [], difficulty = 0, mempool = []\<rparr>"

lemma skeleton_0:
  "dumps str_int (block_json \<lparr>b_timestamp = ''T'', b_tx = [], b_miner = ''C'', b_nonce = 0, b_hash = h\<rparr>)
   = ''{'' @ [CHR 0x22] @ ''miner'' @ [CHR 0x22] @ '': '' @ [CHR 0x22] @ ''C'' @ [CHR 0x22] @ '', '' @ [CHR 0x22] @ ''nonce'' @ [CHR 0x22] @ '': 0, '' @ [CHR 0x22] @ ''timestamp'' @ [CHR 0x22] @ '': '' @ [CHR 0x22] @ ''T'' @ [CHR 0x22] @ '', '' @ [CHR 0x22] @ ''tx'' @ [CHR 0x22] @ '': []}''"
  by (simp add: block_json_def json_str_def escape_char_def str_int_def str_nat.simps digit_char_def)

lemma mine_0: "mine_block sha256_hex str_int ''T'' carol ledger_0 = Some ledger_0_mined"
proof -
  have "sha256_hex (dumps str_int (block_json
      \<lparr>b_timestamp = ''T'', b_tx = [], b_miner = ''C'', b_nonce = 0, b_hash = []\<rparr>) @ str_nat 0)
      = ''91c5713ab2e20f5f5387e6ab6e2a968498c87fababfcf60d7ae92ddd3e25b86e''"
    unfolding skeleton_0 using block00_digest by (simp add: str_nat.simps digit_char_def)
  then show ?thesis
    by (simp add: mine_block_easy_eq ledger_0_def Blockchain_def carol_def ledger_0_mined_def)
qed

theorem mine_block_hash_counterexample:
  "mine_block sha256_hex str_int ''T'' carol ledger_0 = Some ledger_0_mined
   \<and> b_hash (last (chain ledger_0_mined))
       = ''91c5713ab2e20f5f5387e6ab6e2a968498c87fababfcf60d7ae92ddd3e25b86e''
   \<and> sha256_hex (dumps str_int (block_json (last (chain ledger_0_mined))))
       = ''35478e49d7c1b01d7515c71c2254846be9b529b9f0e769fd2618aed5ab0c6f20''
   \<and> b_hash (last (chain ledger_0_mined))
       \<noteq> sha256_hex (dumps str_int (block_json (last (chain ledger_0_mined))))
   \<and> (\<forall>repr (b :: int block) n.
        dumps repr (block_json b) \<noteq> dumps repr (block_json (b\<lparr>b_nonce := 0\<rparr>)) @ str_nat n)"
proof -
  have a: "sha256_hex (dumps str_int (block_json (last (chain ledger_0_mined))))
       = ''35478e49d7c1b01d7515c71c2254846be9b529b9f0e769fd2618aed5ab0c6f20''"
    unfolding ledger_0_mined_def using block0_digest by (simp add: skeleton_0)
  have b: "b_hash (last (chain ledger_0_mined))
       = ''91c5713ab2e20f5f5387e6ab6e2a968498c87fababfcf60d7ae92ddd3e25b86e''"
    by (simp add: ledger_0_mined_def)
  have c: "\<forall>repr (b :: int block) n.
        dumps repr (block_json b) \<noteq> dumps repr (block_json (b\<lparr>b_nonce := 0\<rparr>)) @ str_nat n"
    by (intro allI preimages_differ)
  from a b have "b_hash (last (chain ledger_0_mined))
       \<noteq> sha256_hex (dumps str_int (block_json (last (chain ledger_0_mined))))"
    by simp
  with mine_0 a b c show ?thesis
    by blast
qed

theorem mine_block_least_nonce_witness:
  "mine_block toy_hash str_int ''T'' carol ledger_e = Some ledger_e_mined
   \<and> b_nonce (last (chain ledger_e_mined)) = 14
   \<and> (LEAST n. target_met toy_hash (difficulty ledger_e) (dumps str_int (block_json
        \<lparr>b_timestamp = ''T'', b_tx = mempool ledger_e, b_miner = address carol,
         b_nonce = 0, b_hash = []\<rparr>)) n) = 14
   \<and> b_hash (last (chain ledger_e_mined)) = ''0772''"
proof -
  have "target_met toy_hash (difficulty ledger_e) (dumps str_int (block_json
        \<lparr>b_timestamp = ''T'', b_tx = mempool ledger_e, b_miner = address carol,
         b_nonce = 0, b_hash = []\<rparr>)) 14"
    unfolding ledger_e_def Blockchain_def carol_def
    by (simp add: skeleton_e)
      (simp add: target_met_def startswith_def toy_hash_def hex4_def digit_char_def str_nat.simps)
  then have "\<exists>n. target_met toy_hash (difficulty ledger_e) (dumps str_int (block_json
        \<lparr>b_timestamp = ''T'', b_tx = mempool ledger_e, b_miner = address carol,
         b_nonce = 0, b_hash = []\<rparr>)) n"
    by (rule exI)
  from mine_block_least_nonce [OF this] mine_e show ?thesis
    by (auto simp: ledger_e_mined_def)
qed

section \<open>The transaction builder\<close>

















section \<open>The change output\<close>














section \<open>Export\<close>

text \<open>
  \<^verbatim>\<open>export_data\<close> opens two files for writing, which empties them, and writes the chain
  and the UTXO set. The file system is a map from file names to contents. The serializers
  of the standard library are parameters: \<open>json_dump\<close> is \<^verbatim>\<open>json.dump(_, f, indent=2)\<close>
  on the chain, \<open>writerow\<close> what \<^verbatim>\<open>csv.writer(f).writerow\<close> writes for a row of fields
  already turned into strings, \<open>repr\<close> the string of an amount. The method changes nothing
  in the ledger.
\<close>

definition utxo_row :: "('a \<Rightarrow> string) \<Rightarrow> outref \<times> 'a utxo \<Rightarrow> string list" where
  "utxo_row repr = (\<lambda>((txid, vout), u). [txid, str_int vout, u_address u, repr (u_amount u)])"

definition export_data ::
  "('a block list \<Rightarrow> string) \<Rightarrow> (string list \<Rightarrow> string) \<Rightarrow> ('a \<Rightarrow> string) \<Rightarrow>
   (string \<rightharpoonup> string) \<Rightarrow> 'a ledger \<Rightarrow> (string \<rightharpoonup> string)" where
  "export_data json_dump writerow repr fs L =
     (fs(''chain.json'' \<mapsto> json_dump (chain L)))
       (''utxos.csv'' \<mapsto>
          concat (map writerow ([''txid'', ''vout'', ''address'', ''amount'']
                                 # map (utxo_row repr) (utxos L))))"

text \<open>
  Claim C10. Exporting the same ledger a second time leaves both files as the first export
  wrote them, whatever the files held before: the chain file holds the serialized chain,
  and the UTXO file the header row followed by one row for each entry of the UTXO set, in
  the order of the set.
\<close>

theorem export_data_deterministic:
  "export_data json_dump writerow repr (export_data json_dump writerow repr fs L) L
     = export_data json_dump writerow repr fs L
   \<and> export_data json_dump writerow repr fs L ''chain.json''
     = export_data json_dump writerow repr fs' L ''chain.json''
   \<and> export_data json_dump writerow repr fs L ''utxos.csv''
     = export_data json_dump writerow repr fs' L ''utxos.csv''
   \<and> export_data json_dump writerow repr fs L ''chain.json'' = Some (json_dump (chain L))
   \<and> export_data json_dump writerow repr fs L ''utxos.csv''
     = Some (writerow [''txid'', ''vout'', ''address'', ''amount'']
             @ concat (map (\<lambda>e. writerow (utxo_row repr e)) (utxos L)))"
  by (simp add: export_data_def comp_def)

end
